theory Spec2Isabelle
  imports Main "HOL-Library.AList"
begin

section \<open>JavaScript objects used as dictionaries\<close>

text \<open>
  \<^verbatim>\<open>controller.js\<close> keeps its tables (\<^verbatim>\<open>controllerTypes\<close>, \<^verbatim>\<open>buttons\<close>,
  \<^verbatim>\<open>buttonAlias\<close>, \<^verbatim>\<open>keyCodes\<close>) in object literals and reads them with
  \<^verbatim>\<open>obj[name]\<close>. Such a read looks at the object's own properties first and then at
  its prototype, which for an object literal is \<^verbatim>\<open>Object.prototype\<close>. The members of
  \<^verbatim>\<open>Object.prototype\<close> are therefore found under their names in every table, and all
  of them are truthy: the function \<^verbatim>\<open>Object\<close> under \<^verbatim>\<open>constructor\<close>, the object
  \<^verbatim>\<open>Object.prototype\<close> itself under \<^verbatim>\<open>__proto__\<close>, and a native method under
  each of the other names.
\<close>

datatype builtin = ObjectConstructor | ObjectPrototype | NativeMethod string

definition native_methods :: "string list" where
  "native_methods =
     [''hasOwnProperty'', ''isPrototypeOf'', ''propertyIsEnumerable'', ''toLocaleString'',
      ''toString'', ''valueOf'', ''__defineGetter__'', ''__defineSetter__'',
      ''__lookupGetter__'', ''__lookupSetter__'']"

definition object_prototype :: "string \<Rightarrow> builtin option" where
  "object_prototype k =
     (if k = ''constructor'' then Some ObjectConstructor
      else if k = ''__proto__'' then Some ObjectPrototype
      else if k \<in> set native_methods then Some (NativeMethod k)
      else None)"

text \<open>
  An object is the list of its own properties in the order of their creation. The first
  argument of \<open>js_get\<close> says how the table's value type holds an inherited member.
\<close>

type_synonym 'a jsobject = "(string \<times> 'a) list"

definition js_get :: "(builtin \<Rightarrow> 'a) \<Rightarrow> 'a jsobject \<Rightarrow> string \<Rightarrow> 'a option" where
  "js_get inherited obj k =
     (case map_of obj k of
        Some v \<Rightarrow> Some v
      | None \<Rightarrow> map_option inherited (object_prototype k))"

text \<open>
  \<^verbatim>\<open>obj[k] = v\<close> overwrites an own property where it stands or appends a new one. The
  name \<^verbatim>\<open>__proto__\<close> is the exception: the assignment goes to the setter inherited from
  \<^verbatim>\<open>Object.prototype\<close> and creates no property. For a primitive \<open>v\<close> (the strings
  stored in \<^verbatim>\<open>buttonAlias\<close>) the setter does nothing at all. For an object \<open>v\<close> (a
  slot of \<^verbatim>\<open>buttons\<close>) it replaces the prototype of \<open>obj\<close>. The own properties stay as
  listed here, but the names that \<open>obj\<close> inherits from then on are not followed: every
  statement below that reads a table by name after a rename excludes the new name
  \<^verbatim>\<open>__proto__\<close> or is about fixed names.
\<close>

definition js_put :: "'a jsobject \<Rightarrow> string \<Rightarrow> 'a \<Rightarrow> 'a jsobject" where
  "js_put obj k v = (if k = ''__proto__'' then obj else AList.update k v obj)"

definition js_delete :: "'a jsobject \<Rightarrow> string \<Rightarrow> 'a jsobject" where
  "js_delete obj k = AList.delete k obj"

text \<open>
  \<^verbatim>\<open>for (key in obj)\<close> visits the own properties whose names are array indices
  (canonical decimal numerals below \<open>2^32 - 1\<close>) in ascending order, then the others in
  the order of their creation. \<^verbatim>\<open>Object.prototype\<close> has no enumerable member.
\<close>

definition decimal :: "string \<Rightarrow> int" where
  "decimal s = foldl (\<lambda>n c. 10 * n + (of_char c - 48)) 0 s"

definition array_index :: "string \<Rightarrow> int option" where
  "array_index s =
     (if s \<noteq> [] \<and> list_all (\<lambda>c. c \<in> set ''0123456789'') s
         \<and> (if hd s = CHR ''0'' then tl s = [] else True) \<and> decimal s < 2 ^ 32 - 1
      then Some (decimal s) else None)"

definition for_in :: "'a jsobject \<Rightarrow> (string \<times> 'a) list" where
  "for_in obj =
     sort_key (\<lambda>p. decimal (fst p)) (filter (\<lambda>p. array_index (fst p) \<noteq> None) obj)
     @ filter (\<lambda>p. array_index (fst p) = None) obj"

section \<open>Button\<close>

text \<open>
  A Button is an event channel with a state; \<open>pressed\<close> is the field \<^verbatim>\<open>_pressed\<close>.
  \<open>fired\<close> is the history of the channel: the names of the events triggered on the
  button so far, which is what a game that subscribed to the button has been told.
\<close>

record Button =
  key :: string
  keyCode :: "int option"
  pressed :: bool
  fired :: "string list"

definition new_Button :: "string \<Rightarrow> int option \<Rightarrow> Button" where
  "new_Button k code = \<lparr>key = k, keyCode = code, pressed = True, fired = []\<rparr>"

text \<open>
  Modelled from the spec: the event channel (the library Bullet, whose \<^verbatim>\<open>on\<close> and
  \<^verbatim>\<open>trigger\<close> every Button and Controller carries) is not part of \<^verbatim>\<open>controller.js\<close>.
  As in section 4.1 of the specification, triggering an event runs the handlers subscribed
  to its name, in the order of their subscription, to completion, and does nothing when
  there is none. The handlers are those that \<^verbatim>\<open>controller.js\<close> subscribes.

  \<^verbatim>\<open>button.trigger(ev)\<close>: the two subscriptions of the constructor (lines 108 to 114)
  set the state; \<^verbatim>\<open>controller.js\<close> subscribes nothing to any other event of a Button.
\<close>

definition Button_trigger :: "string \<Rightarrow> Button \<Rightarrow> Button" where
  "Button_trigger ev b =
     b\<lparr>pressed := (if ev = ''keydown'' then True
                   else if ev = ''keyup'' then False
                   else pressed b),
       fired := fired b @ [ev]\<rparr>"

definition isDown :: "Button \<Rightarrow> bool" where
  "isDown b = pressed b"

section \<open>Controller\<close>

text \<open>
  A slot of \<^verbatim>\<open>buttons\<close> holds a Button, or a member of \<^verbatim>\<open>Object.prototype\<close>: a read
  finds one under an inherited name, and \<^verbatim>\<open>remapButton\<close> copies what it has read into
  an own property. Each Button object sits in at most one slot (\<^verbatim>\<open>addButton\<close> files it
  under its key, \<^verbatim>\<open>remapButton\<close> moves it), so a slot holds the Button's state itself.

  A value read from \<^verbatim>\<open>data.button\<close> or \<^verbatim>\<open>buttonAlias\<close> is a string or, again, an
  inherited member.
\<close>

datatype slot = Btn Button | Junk builtin

datatype jsval = Str string | Obj builtin

fun truthy :: "jsval \<Rightarrow> bool" where
  "truthy (Str s) = (s \<noteq> [])"
| "truthy (Obj b) = True"

text \<open>
  A value used as a property name is converted to a string. The text of a native function
  is the engine's own; V8's is written here.
\<close>

fun to_key :: "jsval \<Rightarrow> string" where
  "to_key (Str s) = s"
| "to_key (Obj ObjectConstructor) = ''function Object() { [native code] }''"
| "to_key (Obj (NativeMethod n)) = ''function '' @ n @ ''() { [native code] }''"
| "to_key (Obj ObjectPrototype) = ''[object Object]''"

text \<open>
  The payload of a key event is an object that may have a \<^verbatim>\<open>button\<close> field; an event
  triggered with no payload at all is \<open>None\<close> at the type \<open>payload option\<close>.
\<close>

datatype payload = Payload (button: "jsval option")

datatype error = UnsupportedControllerType string | NoControllerPresent | TypeError

text \<open>
  \<open>keyboard\<close> holds the \<^verbatim>\<open>keyCodes\<close> table of each call of \<^verbatim>\<open>enableKeyboard\<close>: the
  two listeners that the call hands to \<^verbatim>\<open>gamee._keydown\<close> and \<^verbatim>\<open>gamee._keyup\<close> close
  over the table and over the controller. A table entry is the Button object; the listeners
  read nothing but its \<open>key\<close>, which never changes.
\<close>

record Controller =
  buttons :: "slot jsobject"
  buttonAlias :: "jsval jsobject"
  keyboard :: "(int \<times> Button) list list"

text \<open>
  A stateful operation returns the exception it raised, if any, and the state it left.
\<close>

type_synonym 's outcome = "error option \<times> 's"

text \<open>
  The handlers of the public events \<^verbatim>\<open>keydown\<close> and \<^verbatim>\<open>keyup\<close> (lines 202 to 216).
  \<^verbatim>\<open>data.button\<close> of an absent payload is a TypeError, and so is the call of
  \<^verbatim>\<open>trigger\<close> on a slot that is not a Button.
\<close>

definition on_key :: "string \<Rightarrow> payload option \<Rightarrow> Controller \<Rightarrow> Controller outcome" where
  "on_key ev data c =
     (case data of
        None \<Rightarrow> (Some TypeError, c)
      | Some d \<Rightarrow>
          (case button d of
             None \<Rightarrow> (None, c)
           | Some v \<Rightarrow>
               if \<not> truthy v then (None, c)
               else (case js_get Junk (buttons c) (to_key v) of
                       None \<Rightarrow> (None, c)
                     | Some (Junk j) \<Rightarrow> (Some TypeError, c)
                     | Some (Btn b) \<Rightarrow>
                         (None, c\<lparr>buttons :=
                                     AList.update (to_key v) (Btn (Button_trigger ev b)) (buttons c)\<rparr>))))"

text \<open>
  The handlers of the private events \<^verbatim>\<open>$keydown\<close> and \<^verbatim>\<open>$keyup\<close> (lines 178 to 192)
  rewrite the payload and trigger the public event.
\<close>

definition resolve_alias :: "Controller \<Rightarrow> payload \<Rightarrow> payload" where
  "resolve_alias c d =
     (case button d of
        None \<Rightarrow> d
      | Some v \<Rightarrow>
          if \<not> truthy v then d
          else (case js_get Obj (buttonAlias c) (to_key v) of
                  None \<Rightarrow> d
                | Some a \<Rightarrow> if truthy a then Payload (Some a) else d))"

definition on_private :: "string \<Rightarrow> payload option \<Rightarrow> Controller \<Rightarrow> Controller outcome" where
  "on_private ev data c =
     (case data of
        None \<Rightarrow> (Some TypeError, c)
      | Some d \<Rightarrow> on_key ev (Some (resolve_alias c d)) c)"

text \<open>
  \<^verbatim>\<open>controller.trigger(ev, data)\<close> runs the handlers subscribed to \<open>ev\<close>; the
  constructor subscribes one to each of the four names, and an event with no subscriber
  does nothing.
\<close>

definition trigger :: "string \<Rightarrow> payload option \<Rightarrow> Controller \<Rightarrow> Controller outcome" where
  "trigger ev data c =
     (if ev = ''$keydown'' then on_private ''keydown'' data c
      else if ev = ''$keyup'' then on_private ''keyup'' data c
      else if ev = ''keydown'' then on_key ''keydown'' data c
      else if ev = ''keyup'' then on_key ''keyup'' data c
      else (None, c))"

definition Controller_new :: Controller where
  "Controller_new = \<lparr>buttons = [], buttonAlias = [], keyboard = []\<rparr>"

definition addButton :: "Button \<Rightarrow> Controller \<Rightarrow> Controller" where
  "addButton b c = c\<lparr>buttons := js_put (buttons c) (key b) (Btn b)\<rparr>"

text \<open>
  \<^verbatim>\<open>enableKeyboard\<close> (lines 238 to 270). A slot that is not a Button has no
  \<^verbatim>\<open>keyCode\<close>; a Button's \<^verbatim>\<open>keyCode\<close> counts when it is truthy, that is neither
  absent nor zero.
\<close>

definition keyCodes_of :: "slot jsobject \<Rightarrow> (int \<times> Button) list" where
  "keyCodes_of bs =
     foldl (\<lambda>keyCodes p.
              case snd p of
                Junk j \<Rightarrow> keyCodes
              | Btn b \<Rightarrow>
                  (case keyCode b of
                     None \<Rightarrow> keyCodes
                   | Some n \<Rightarrow> if n = 0 then keyCodes else AList.update n b keyCodes))
           [] (for_in bs)"

definition enableKeyboard :: "Controller \<Rightarrow> Controller" where
  "enableKeyboard c = c\<lparr>keyboard := keyboard c @ [keyCodes_of (buttons c)]\<rparr>"

text \<open>
  One listener of a physical key event (lines 249 to 269): \<open>ev\<close> is \<^verbatim>\<open>keydown\<close> for
  the listener given to \<^verbatim>\<open>gamee._keydown\<close> and \<^verbatim>\<open>keyup\<close> for the one given to
  \<^verbatim>\<open>gamee._keyup\<close>. Its \<^verbatim>\<open>ev.preventDefault()\<close> is between the browser and the key
  and leaves the controller alone.
\<close>

definition key_listener ::
  "string \<Rightarrow> (int \<times> Button) list \<Rightarrow> int \<Rightarrow> Controller \<Rightarrow> Controller outcome" where
  "key_listener ev keyCodes code c =
     (case map_of keyCodes code of
        None \<Rightarrow> (None, c)
      | Some b \<Rightarrow> trigger ev (Some (Payload (Some (Str (key b))))) c)"

text \<open>
  Modelled from the spec: the keyboard bridge (\<^verbatim>\<open>gamee._keydown\<close>, \<^verbatim>\<open>gamee._keyup\<close>)
  is not part of \<^verbatim>\<open>controller.js\<close>. Section 6 of the specification gives it two
  subscription points that deliver a native key code; a physical key event is delivered
  here to the listeners of the controller in the order of their subscription, up to the
  first one that raises.
\<close>

fun key_event ::
  "string \<Rightarrow> int \<Rightarrow> (int \<times> Button) list list \<Rightarrow> Controller \<Rightarrow> Controller outcome" where
  "key_event ev code [] c = (None, c)"
| "key_event ev code (t # ts) c =
     (case key_listener ev t code c of
        (None, c') \<Rightarrow> key_event ev code ts c'
      | (Some e, c') \<Rightarrow> (Some e, c'))"

definition physical_key :: "string \<Rightarrow> int \<Rightarrow> Controller \<Rightarrow> Controller outcome" where
  "physical_key ev code c = key_event ev code (keyboard c) c"

text \<open>\<^verbatim>\<open>remapButton(oldName, {name: newName})\<close> (lines 286 to 294).\<close>

definition remapButton :: "string \<Rightarrow> string \<Rightarrow> Controller \<Rightarrow> Controller" where
  "remapButton oldName newName c =
     (case js_get Junk (buttons c) oldName of
        None \<Rightarrow> c
      | Some v \<Rightarrow>
          c\<lparr>buttonAlias := js_put (buttonAlias c) oldName (Str newName),
            buttons := js_delete (js_put (buttons c) newName v) oldName\<rparr>)"

section \<open>The controllers\<close>

definition OneButtonController :: Controller where
  "OneButtonController = addButton (new_Button ''button'' (Some 32)) Controller_new"

definition TwoButtonController :: Controller where
  "TwoButtonController =
     addButton (new_Button ''right'' (Some 39))
       (addButton (new_Button ''left'' (Some 37)) Controller_new)"

definition FourButtonController :: Controller where
  "FourButtonController =
     addButton (new_Button ''A'' (Some 32))
       (addButton (new_Button ''right'' (Some 39))
         (addButton (new_Button ''left'' (Some 37))
           (addButton (new_Button ''up'' (Some 38)) Controller_new)))"

definition FiveButtonController :: Controller where
  "FiveButtonController =
     addButton (new_Button ''A'' (Some 32))
       (addButton (new_Button ''down'' (Some 40))
         (addButton (new_Button ''right'' (Some 39))
           (addButton (new_Button ''left'' (Some 37))
             (addButton (new_Button ''up'' (Some 38)) Controller_new))))"

definition SixButtonController :: Controller where
  "SixButtonController =
     addButton (new_Button ''B'' (Some 17))
       (addButton (new_Button ''A'' (Some 32))
         (addButton (new_Button ''down'' (Some 40))
           (addButton (new_Button ''right'' (Some 39))
             (addButton (new_Button ''left'' (Some 37))
               (addButton (new_Button ''up'' (Some 38)) Controller_new)))))"

text \<open>
  \<^verbatim>\<open>TouchController\<close> calls the Controller constructor and subscribes five relays, from
  \<^verbatim>\<open>$touchstart\<close>, \<^verbatim>\<open>$touchend\<close>, \<^verbatim>\<open>$touchmove\<close>, \<^verbatim>\<open>$touchleave\<close> and
  \<^verbatim>\<open>$touchcancel\<close> to the public event of the same name without the \<^verbatim>\<open>$\<close>.
\<close>

definition TouchController :: Controller where
  "TouchController = Controller_new"

definition touch_events :: "string list" where
  "touch_events =
     [''$touchstart'', ''$touchend'', ''$touchmove'', ''$touchleave'', ''$touchcancel'']"

text \<open>
  What \<^verbatim>\<open>new controllerTypes[type]()\<close> can build. The five button controllers have
  \<^verbatim>\<open>Controller.prototype\<close> on their prototype chain. A TouchController has not: line 471
  reads \<^verbatim>\<open>TouchController.prototype = Object.create(TouchController.prototype)\<close>, so the
  instance has what the constructors gave it (the event channel, \<^verbatim>\<open>buttons\<close>,
  \<^verbatim>\<open>buttonAlias\<close>) and none of \<^verbatim>\<open>addButton\<close>, \<^verbatim>\<open>enableKeyboard\<close>,
  \<^verbatim>\<open>remapButton\<close>. \<^verbatim>\<open>new Object()\<close> is an empty object.
\<close>

datatype "instance" = ControllerInst Controller | TouchInst Controller | PlainObject

datatype ctor =
    Ctor_OneButton | Ctor_TwoButtons | Ctor_FourButtons | Ctor_FiveButtons
  | Ctor_SixButtons | Ctor_Touch | Inherited builtin

definition controllerTypes :: "ctor jsobject" where
  "controllerTypes =
     [(''OneButton'', Ctor_OneButton),
      (''TwoButtons'', Ctor_TwoButtons),
      (''FourButtons'', Ctor_FourButtons),
      (''FiveButtons'', Ctor_FiveButtons),
      (''SixButtons'', Ctor_SixButtons),
      (''Touch'', Ctor_Touch)]"

text \<open>
  \<^verbatim>\<open>new f()\<close>: of the members of \<^verbatim>\<open>Object.prototype\<close> only \<^verbatim>\<open>Object\<close> is a
  constructor; \<^verbatim>\<open>new\<close> on a native method or on an object is a TypeError.
\<close>

fun construct :: "ctor \<Rightarrow> error + instance" where
  "construct Ctor_OneButton = Inr (ControllerInst OneButtonController)"
| "construct Ctor_TwoButtons = Inr (ControllerInst TwoButtonController)"
| "construct Ctor_FourButtons = Inr (ControllerInst FourButtonController)"
| "construct Ctor_FiveButtons = Inr (ControllerInst FiveButtonController)"
| "construct Ctor_SixButtons = Inr (ControllerInst SixButtonController)"
| "construct Ctor_Touch = Inr (TouchInst TouchController)"
| "construct (Inherited ObjectConstructor) = Inr PlainObject"
| "construct (Inherited ObjectPrototype) = Inl TypeError"
| "construct (Inherited (NativeMethod n)) = Inl TypeError"

text \<open>A method call on what was built: calling a method the object has not is a TypeError.\<close>

fun call_enableKeyboard :: "instance \<Rightarrow> error + instance" where
  "call_enableKeyboard (ControllerInst c) = Inr (ControllerInst (enableKeyboard c))"
| "call_enableKeyboard (TouchInst c) = Inl TypeError"
| "call_enableKeyboard PlainObject = Inl TypeError"

fun call_remapButton :: "string \<Rightarrow> string \<Rightarrow> instance \<Rightarrow> error + instance" where
  "call_remapButton oldName newName (ControllerInst c) =
     Inr (ControllerInst (remapButton oldName newName c))"
| "call_remapButton oldName newName (TouchInst c) = Inl TypeError"
| "call_remapButton oldName newName PlainObject = Inl TypeError"

fun instance_trigger :: "string \<Rightarrow> payload option \<Rightarrow> instance \<Rightarrow> instance outcome" where
  "instance_trigger ev data (ControllerInst c) =
     (case trigger ev data c of (r, c') \<Rightarrow> (r, ControllerInst c'))"
| "instance_trigger ev data (TouchInst c) =
     (case (if ev \<in> set touch_events then trigger (tl ev) data c else trigger ev data c) of
        (r, c') \<Rightarrow> (r, TouchInst c'))"
| "instance_trigger ev data PlainObject = (Some TypeError, PlainObject)"

section \<open>createController\<close>

text \<open>
  The options: \<^verbatim>\<open>opts.enableKeyboard\<close> and \<^verbatim>\<open>opts.buttons\<close>, the latter as the list
  of its entries \<^verbatim>\<open>oldName: {name: newName}\<close> in the order \<^verbatim>\<open>for (btn in opts.buttons)\<close>
  visits them. Absent options are \<open>None\<close>; an absent \<^verbatim>\<open>opts.buttons\<close> and an empty one
  both run no remap.
\<close>

record Opts =
  opts_enableKeyboard :: bool
  opts_buttons :: "(string \<times> string) list"

fun remap_all :: "(string \<times> string) list \<Rightarrow> instance \<Rightarrow> error + instance" where
  "remap_all [] controller = Inr controller"
| "remap_all ((btn, newName) # rest) controller =
     (case call_remapButton btn newName controller of
        Inl e \<Rightarrow> Inl e
      | Inr controller' \<Rightarrow> remap_all rest controller')"

text \<open>\<^verbatim>\<open>opts || {}\<close>\<close>

definition or_empty :: "Opts option \<Rightarrow> Opts" where
  "or_empty opts =
     (case opts of
        None \<Rightarrow> \<lparr>opts_enableKeyboard = False, opts_buttons = []\<rparr>
      | Some given \<Rightarrow> given)"

definition createController :: "string \<Rightarrow> Opts option \<Rightarrow> error + instance" where
  "createController type opts =
     (case js_get Inherited controllerTypes type of
        None \<Rightarrow> Inl (UnsupportedControllerType type)
      | Some f \<Rightarrow>
          (let opts = or_empty opts
           in case construct f of
                Inl e \<Rightarrow> Inl e
              | Inr controller \<Rightarrow>
                  (case (if opts_enableKeyboard opts then call_enableKeyboard controller
                         else Inr controller) of
                     Inl e \<Rightarrow> Inl e
                   | Inr controller' \<Rightarrow> remap_all (opts_buttons opts) controller')))"

section \<open>gamee.controller\<close>

text \<open>
  The state of the module: \<^verbatim>\<open>mainController\<close>, and what has been said to the host
  through \<^verbatim>\<open>global.$gameeNative\<close>.
\<close>

datatype announcement = Primary string | Additional string

record Session =
  mainController :: "instance option"
  gameeNative :: "announcement list"

definition requestController ::
  "string \<Rightarrow> Opts option \<Rightarrow> Session \<Rightarrow> (error + instance) \<times> Session" where
  "requestController type opts s =
     (case createController type opts of
        Inl e \<Rightarrow> (Inl e, s)
      | Inr controller \<Rightarrow>
          (Inr controller,
           s\<lparr>gameeNative := gameeNative s @ [Primary type],
             mainController := Some controller\<rparr>))"

definition additionalController ::
  "string \<Rightarrow> Opts option \<Rightarrow> Session \<Rightarrow> (error + instance) \<times> Session" where
  "additionalController type opts s =
     (case createController type opts of
        Inl e \<Rightarrow> (Inl e, s)
      | Inr controller \<Rightarrow>
          (Inr controller, s\<lparr>gameeNative := gameeNative s @ [Additional type]\<rparr>))"

definition gamee_trigger :: "string \<Rightarrow> payload option \<Rightarrow> Session \<Rightarrow> Session outcome" where
  "gamee_trigger ev data s =
     (case mainController s of
        None \<Rightarrow> (Some NoControllerPresent, s)
      | Some m \<Rightarrow>
          (case instance_trigger ev data m of
             (r, m') \<Rightarrow> (r, s\<lparr>mainController := Some m'\<rparr>)))"

text \<open>The session as the module is loaded: no controller, nothing announced.\<close>

definition Session_new :: Session where
  "Session_new = \<lparr>mainController = None, gameeNative = []\<rparr>"

text \<open>
  A client of the module makes calls one after the other and goes on after an exception.
\<close>

datatype call =
    RequestController string "Opts option"
  | AdditionalController string "Opts option"
  | Trigger string "payload option"

fun step :: "call \<Rightarrow> Session \<Rightarrow> Session" where
  "step (RequestController type opts) s = snd (requestController type opts s)"
| "step (AdditionalController type opts) s = snd (additionalController type opts s)"
| "step (Trigger ev data) s = snd (gamee_trigger ev data s)"

definition run :: "call list \<Rightarrow> Session \<Rightarrow> Session" where
  "run calls s = fold step calls s"

fun is_additional :: "call \<Rightarrow> bool" where
  "is_additional (AdditionalController type opts) = True"
| "is_additional c = False"

section \<open>Basic facts\<close>

lemma new_Button_sel [simp]:
  "key (new_Button k code) = k"
  "keyCode (new_Button k code) = code"
  "pressed (new_Button k code) = True"
  "fired (new_Button k code) = []"
  by (simp_all add: new_Button_def)

lemmas js_defs = js_get_def js_put_def js_delete_def object_prototype_def native_methods_def

lemmas ctl_defs = on_key_def on_private_def resolve_alias_def trigger_def addButton_def
  enableKeyboard_def remapButton_def Controller_new_def Button_trigger_def

lemmas kb_defs = keyCodes_of_def for_in_def array_index_def decimal_def key_listener_def
  physical_key_def

lemmas cat_defs = OneButtonController_def TwoButtonController_def FourButtonController_def
  FiveButtonController_def SixButtonController_def TouchController_def controllerTypes_def
  createController_def or_empty_def

text \<open>Renaming a button the controller holds, to a name other than \<^verbatim>\<open>__proto__\<close>.\<close>

lemma remapButton_own:
  assumes "map_of (buttons c) oldName = Some v" and "newName \<noteq> ''__proto__''"
  shows "remapButton oldName newName c =
           c\<lparr>buttonAlias := js_put (buttonAlias c) oldName (Str newName),
             buttons := AList.delete oldName (AList.update newName v (buttons c))\<rparr>"
  using assms by (simp add: remapButton_def js_get_def js_put_def js_delete_def)

section \<open>The state of a Button\<close>

text \<open>
  C7. A Button is down as soon as it is constructed, whatever its key and key code; a
  \<^verbatim>\<open>keyup\<close> triggered on it releases it, and a \<^verbatim>\<open>keydown\<close> after that presses it
  again.
\<close>

theorem Button_isDown_lifecycle:
  "isDown (new_Button k code)
   \<and> \<not> isDown (Button_trigger ''keyup'' (new_Button k code))
   \<and> isDown (Button_trigger ''keydown'' (Button_trigger ''keyup'' (new_Button k code)))"
  by (simp add: isDown_def Button_trigger_def)

section \<open>What createController builds\<close>

text \<open>
  C4. For each of the six supported identifiers, \<^verbatim>\<open>createController(type)\<close> returns the
  controller of that type, and its buttons are those of the table, by name and by key
  code: OneButton has button (32); TwoButtons has left (37) and right (39); FourButtons has
  up (38), left (37), right (39) and A (32); FiveButtons has down (40) as well; SixButtons
  has B (17) as well; Touch has no button.
\<close>

theorem catalog_layouts:
  "createController ''OneButton'' None = Inr (ControllerInst OneButtonController)
   \<and> buttons OneButtonController = [(''button'', Btn (new_Button ''button'' (Some 32)))]
   \<and> createController ''TwoButtons'' None = Inr (ControllerInst TwoButtonController)
   \<and> buttons TwoButtonController =
        [(''left'', Btn (new_Button ''left'' (Some 37))),
         (''right'', Btn (new_Button ''right'' (Some 39)))]
   \<and> createController ''FourButtons'' None = Inr (ControllerInst FourButtonController)
   \<and> buttons FourButtonController =
        [(''up'', Btn (new_Button ''up'' (Some 38))),
         (''left'', Btn (new_Button ''left'' (Some 37))),
         (''right'', Btn (new_Button ''right'' (Some 39))),
         (''A'', Btn (new_Button ''A'' (Some 32)))]
   \<and> createController ''FiveButtons'' None = Inr (ControllerInst FiveButtonController)
   \<and> buttons FiveButtonController =
        [(''up'', Btn (new_Button ''up'' (Some 38))),
         (''left'', Btn (new_Button ''left'' (Some 37))),
         (''right'', Btn (new_Button ''right'' (Some 39))),
         (''down'', Btn (new_Button ''down'' (Some 40))),
         (''A'', Btn (new_Button ''A'' (Some 32)))]
   \<and> createController ''SixButtons'' None = Inr (ControllerInst SixButtonController)
   \<and> buttons SixButtonController =
        [(''up'', Btn (new_Button ''up'' (Some 38))),
         (''left'', Btn (new_Button ''left'' (Some 37))),
         (''right'', Btn (new_Button ''right'' (Some 39))),
         (''down'', Btn (new_Button ''down'' (Some 40))),
         (''A'', Btn (new_Button ''A'' (Some 32))),
         (''B'', Btn (new_Button ''B'' (Some 17)))]
   \<and> createController ''Touch'' None = Inr (TouchInst TouchController)
   \<and> buttons TouchController = []"
  by (simp add: js_defs cat_defs addButton_def Controller_new_def)

text \<open>
  An identifier that is neither in the table nor a member name of \<^verbatim>\<open>Object.prototype\<close>
  is rejected, whatever the options, before anything is built.
\<close>

lemma createController_rejects:
  assumes "map_of controllerTypes type = None" and "object_prototype type = None"
  shows "createController type opts = Inl (UnsupportedControllerType type)"
  using assms by (simp add: createController_def js_get_def)

lemma createController_Bogus:
  "createController ''Bogus'' opts = Inl (UnsupportedControllerType ''Bogus'')"
  by (rule createController_rejects) (simp_all add: controllerTypes_def js_defs)

text \<open>
  C5. The guard of \<^verbatim>\<open>createController\<close> is \<^verbatim>\<open>!controllerTypes[type]\<close>, and the read
  finds the members that the table inherits. The identifier \<^verbatim>\<open>constructor\<close> is not in
  the catalog, yet \<^verbatim>\<open>createController("constructor")\<close> raises nothing: the guard sees the
  function \<^verbatim>\<open>Object\<close>, \<^verbatim>\<open>new\<close> runs it, and the caller receives an empty object
  that is no controller.
\<close>

theorem createController_constructor_not_rejected:
  "map_of controllerTypes ''constructor'' = None
   \<and> createController ''constructor'' None = Inr PlainObject"
  by (simp add: js_defs cat_defs)

section \<open>Events on a controller\<close>

text \<open>
  A public key event whose payload has no \<^verbatim>\<open>button\<close> field, or names a button that the
  controller neither holds nor inherits from \<^verbatim>\<open>Object.prototype\<close>, changes nothing and
  raises nothing.
\<close>

lemma missing_button_field_dropped:
  "trigger ''keydown'' (Some (Payload None)) c = (None, c)"
  "trigger ''keyup'' (Some (Payload None)) c = (None, c)"
  by (simp_all add: trigger_def on_key_def)

lemma unknown_button_dropped:
  assumes "map_of (buttons c) name = None" and "object_prototype name = None"
  shows "trigger ''keydown'' (Some (Payload (Some (Str name)))) c = (None, c)"
    and "trigger ''keyup'' (Some (Payload (Some (Str name)))) c = (None, c)"
  using assms by (simp_all add: trigger_def on_key_def js_get_def)

text \<open>
  C8. The guard of the public handlers is \<^verbatim>\<open>!self.buttons[data.button]\<close>. The
  TwoButtons controller holds no button named \<^verbatim>\<open>constructor\<close>, but the read finds the
  inherited function \<^verbatim>\<open>Object\<close>, the guard lets the event through, and the call of
  \<^verbatim>\<open>trigger\<close> on that function raises a TypeError. No button is touched.
\<close>

theorem keydown_inherited_name_raises:
  "map_of (buttons TwoButtonController) ''constructor'' = None
   \<and> trigger ''keydown'' (Some (Payload (Some (Str ''constructor'')))) TwoButtonController
       = (Some TypeError, TwoButtonController)"
  by (simp add: js_defs ctl_defs cat_defs)

section \<open>Renamed buttons\<close>

text \<open>
  C2. Let a controller hold a Button under \<^verbatim>\<open>left\<close>. After
  \<^verbatim>\<open>remapButton("left", {name: "throttle"})\<close> there is no entry \<^verbatim>\<open>left\<close>, the entry
  \<^verbatim>\<open>throttle\<close> is that same Button, and \<^verbatim>\<open>buttonAlias\<close> sends \<^verbatim>\<open>left\<close> to
  \<^verbatim>\<open>throttle\<close>. The private event \<^verbatim>\<open>$keydown\<close> with payload \<^verbatim>\<open>{button: "left"}\<close>
  then returns normally and changes the controller in one place only: the Button under
  \<^verbatim>\<open>throttle\<close> has received \<^verbatim>\<open>keydown\<close>. There is still no entry \<^verbatim>\<open>left\<close>, so
  nothing was delivered under the old name.
\<close>

theorem remap_left_to_throttle:
  assumes "map_of (buttons c) ''left'' = Some (Btn b)"
  shows "map_of (buttons (remapButton ''left'' ''throttle'' c)) ''left'' = None
       \<and> map_of (buttons (remapButton ''left'' ''throttle'' c)) ''throttle'' = Some (Btn b)
       \<and> map_of (buttonAlias (remapButton ''left'' ''throttle'' c)) ''left''
           = Some (Str ''throttle'')
       \<and> trigger ''$keydown'' (Some (Payload (Some (Str ''left''))))
            (remapButton ''left'' ''throttle'' c)
           = (None, (remapButton ''left'' ''throttle'' c)
                      \<lparr>buttons := AList.update ''throttle''
                          (Btn (Button_trigger ''keydown'' b))
                          (buttons (remapButton ''left'' ''throttle'' c))\<rparr>)
       \<and> map_of (buttons (snd (trigger ''$keydown'' (Some (Payload (Some (Str ''left''))))
                                  (remapButton ''left'' ''throttle'' c)))) ''left'' = None"
proof -
  let ?c = "remapButton ''left'' ''throttle'' c"
  have r: "?c = c\<lparr>buttonAlias := js_put (buttonAlias c) ''left'' (Str ''throttle''),
             buttons := AList.delete ''left'' (AList.update ''throttle'' (Btn b) (buttons c))\<rparr>"
    using assms by (simp add: remapButton_own)
  have gone: "map_of (buttons ?c) ''left'' = None"
    by (simp add: r delete_conv')
  have moved: "map_of (buttons ?c) ''throttle'' = Some (Btn b)"
    by (simp add: r delete_conv' update_conv')
  have aliased: "map_of (buttonAlias ?c) ''left'' = Some (Str ''throttle'')"
    by (simp add: r js_put_def update_conv')
  have delivered:
    "trigger ''$keydown'' (Some (Payload (Some (Str ''left'')))) ?c
       = (None, ?c\<lparr>buttons := AList.update ''throttle''
                       (Btn (Button_trigger ''keydown'' b)) (buttons ?c)\<rparr>)"
    using moved aliased
    by (simp add: trigger_def on_private_def resolve_alias_def on_key_def js_get_def)
  have still_gone:
    "map_of (buttons (snd (trigger ''$keydown'' (Some (Payload (Some (Str ''left'')))) ?c)))
       ''left'' = None"
    using gone by (simp add: delivered update_conv')
  from gone moved aliased delivered still_gone show ?thesis by blast
qed

theorem remap_left_to_throttle_witness:
  "map_of (buttons TwoButtonController) ''left'' = Some (Btn (new_Button ''left'' (Some 37)))
   \<and> map_of (buttons (remapButton ''left'' ''throttle'' TwoButtonController)) ''left'' = None
   \<and> map_of (buttons (remapButton ''left'' ''throttle'' TwoButtonController)) ''throttle''
        = Some (Btn (new_Button ''left'' (Some 37)))
   \<and> fst (trigger ''$keydown'' (Some (Payload (Some (Str ''left''))))
            (remapButton ''left'' ''throttle'' TwoButtonController)) = None"
proof -
  have h: "map_of (buttons TwoButtonController) ''left''
             = Some (Btn (new_Button ''left'' (Some 37)))"
    by (simp add: TwoButtonController_def addButton_def Controller_new_def js_put_def)
  show ?thesis using h remap_left_to_throttle [OF h] by simp
qed

text \<open>
  Renaming a button to the name it has: the entry is written and then deleted, and the
  alias of the name is the name. A host event under the name is then dropped, unless the
  name is also a member name of \<^verbatim>\<open>Object.prototype\<close>.
\<close>

lemma remap_to_own_name:
  assumes "map_of (buttons c) k = Some v" and "k \<noteq> ''__proto__''"
  shows "map_of (buttons (remapButton k k c)) k = None"
    and "map_of (buttonAlias (remapButton k k c)) k = Some (Str k)"
  using assms by (simp_all add: remapButton_own delete_conv' js_put_def update_conv')

lemma remap_to_own_name_dropped:
  assumes "map_of (buttons c) k = Some v" and "object_prototype k = None"
  shows "trigger ''$keydown'' (Some (Payload (Some (Str k)))) (remapButton k k c)
           = (None, remapButton k k c)"
    and "trigger ''$keyup'' (Some (Payload (Some (Str k)))) (remapButton k k c)
           = (None, remapButton k k c)"
proof -
  from assms(2) have k: "k \<noteq> ''__proto__''"
    by (auto simp: object_prototype_def)
  note r = remap_to_own_name [OF assms(1) k]
  show "trigger ''$keydown'' (Some (Payload (Some (Str k)))) (remapButton k k c)
           = (None, remapButton k k c)"
    using r assms(2)
    by (simp add: trigger_def on_private_def resolve_alias_def on_key_def js_get_def)
  show "trigger ''$keyup'' (Some (Payload (Some (Str k)))) (remapButton k k c)
           = (None, remapButton k k c)"
    using r assms(2)
    by (simp add: trigger_def on_private_def resolve_alias_def on_key_def js_get_def)
qed

text \<open>
  C9. A TwoButtons controller created with the remap \<^verbatim>\<open>left: {name: "toString"}\<close>
  holds its left Button under \<^verbatim>\<open>toString\<close>. After
  \<^verbatim>\<open>remapButton("toString", {name: "toString"})\<close> no entry \<^verbatim>\<open>toString\<close> is left and the
  alias of \<^verbatim>\<open>toString\<close> is \<^verbatim>\<open>toString\<close>. A host event \<^verbatim>\<open>$keydown\<close> that names
  \<^verbatim>\<open>toString\<close> is then not dropped: the public handler reads the inherited native
  method under that name and raises a TypeError.
\<close>

theorem remap_to_own_name_then_event_raises:
  "createController ''TwoButtons''
      (Some \<lparr>opts_enableKeyboard = False, opts_buttons = [(''left'', ''toString'')]\<rparr>)
     = Inr (ControllerInst (remapButton ''left'' ''toString'' TwoButtonController))
   \<and> map_of (buttons (remapButton ''left'' ''toString'' TwoButtonController)) ''toString''
       = Some (Btn (new_Button ''left'' (Some 37)))
   \<and> map_of (buttons (remapButton ''toString'' ''toString''
                        (remapButton ''left'' ''toString'' TwoButtonController))) ''toString''
       = None
   \<and> map_of (buttonAlias (remapButton ''toString'' ''toString''
                        (remapButton ''left'' ''toString'' TwoButtonController))) ''toString''
       = Some (Str ''toString'')
   \<and> trigger ''$keydown'' (Some (Payload (Some (Str ''toString''))))
        (remapButton ''toString'' ''toString''
          (remapButton ''left'' ''toString'' TwoButtonController))
       = (Some TypeError,
          remapButton ''toString'' ''toString''
            (remapButton ''left'' ''toString'' TwoButtonController))"
  by (simp add: js_defs ctl_defs cat_defs)

section \<open>Keys of the keyboard\<close>

text \<open>
  Without a remap the keyboard reaches the buttons: on a FourButtons controller with the
  keyboard enabled, releasing the key with code 38 releases \<^verbatim>\<open>up\<close>, and a key code of
  no button does nothing.
\<close>

lemma keyboard_without_remap:
  "physical_key ''keyup'' 38 (enableKeyboard FourButtonController)
     = (None, (enableKeyboard FourButtonController)
                \<lparr>buttons := AList.update ''up''
                    (Btn (Button_trigger ''keyup'' (new_Button ''up'' (Some 38))))
                    (buttons FourButtonController)\<rparr>)"
  "physical_key ''keyup'' 13 (enableKeyboard FourButtonController)
     = (None, enableKeyboard FourButtonController)"
  by (simp_all add: js_defs ctl_defs kb_defs cat_defs)

text \<open>
  Enabling the keyboard after the remap changes nothing: the listener still names the
  Button by its own key.
\<close>

lemma keyboard_enabled_after_remap:
  "physical_key ''keyup'' 37
     (enableKeyboard (remapButton ''left'' ''throttle'' FourButtonController))
     = (None, enableKeyboard (remapButton ''left'' ''throttle'' FourButtonController))"
  by (simp add: js_defs ctl_defs kb_defs cat_defs)

text \<open>
  C1. \<^verbatim>\<open>createController("FourButtons", {enableKeyboard: true, buttons: {left: {name:
  "throttle"}}})\<close> returns a controller with the keyboard enabled whose left Button (key code
  37) sits under \<^verbatim>\<open>throttle\<close>. Releasing the physical key with code 37 leaves that
  controller exactly as it was: the keyboard listener triggers the public \<^verbatim>\<open>keyup\<close> with
  the Button's own key \<^verbatim>\<open>left\<close>, the public handler finds no entry of that name, and the
  Button under \<^verbatim>\<open>throttle\<close> gets no event. The host's \<^verbatim>\<open>$keyup\<close> for \<^verbatim>\<open>left\<close>,
  which goes through \<^verbatim>\<open>buttonAlias\<close>, does release that Button.
\<close>

theorem keyboard_key_misses_remapped_button:
  "createController ''FourButtons''
      (Some \<lparr>opts_enableKeyboard = True, opts_buttons = [(''left'', ''throttle'')]\<rparr>)
     = Inr (ControllerInst
             (remapButton ''left'' ''throttle'' (enableKeyboard FourButtonController)))
   \<and> map_of (buttons (remapButton ''left'' ''throttle'' (enableKeyboard FourButtonController)))
        ''throttle'' = Some (Btn (new_Button ''left'' (Some 37)))
   \<and> physical_key ''keyup'' 37
        (remapButton ''left'' ''throttle'' (enableKeyboard FourButtonController))
     = (None, remapButton ''left'' ''throttle'' (enableKeyboard FourButtonController))
   \<and> map_of (buttons (snd (trigger ''$keyup'' (Some (Payload (Some (Str ''left''))))
        (remapButton ''left'' ''throttle'' (enableKeyboard FourButtonController)))))
        ''throttle''
     = Some (Btn (Button_trigger ''keyup'' (new_Button ''left'' (Some 37))))"
  by (simp add: js_defs ctl_defs kb_defs cat_defs)

section \<open>The main controller\<close>

text \<open>
  C3. With no main controller, \<^verbatim>\<open>gamee.controller.trigger\<close> raises the error "No
  controller present" and changes nothing, whatever the event. From any session,
  \<^verbatim>\<open>requestController("OneButton")\<close> returns the OneButton controller, announces the type
  to the host and makes the controller the main one; \<^verbatim>\<open>trigger("$keydown", {button:
  "button"})\<close> then returns normally, the Button under \<^verbatim>\<open>button\<close> of the main controller
  has received \<^verbatim>\<open>keydown\<close>, and that Button is down.
\<close>

theorem session_trigger_needs_controller:
  "gamee_trigger ev data (s\<lparr>mainController := None\<rparr>)
     = (Some NoControllerPresent, s\<lparr>mainController := None\<rparr>)
   \<and> requestController ''OneButton'' None s
     = (Inr (ControllerInst OneButtonController),
        s\<lparr>gameeNative := gameeNative s @ [Primary ''OneButton''],
          mainController := Some (ControllerInst OneButtonController)\<rparr>)
   \<and> gamee_trigger ''$keydown'' (Some (Payload (Some (Str ''button''))))
        (snd (requestController ''OneButton'' None s))
     = (None,
        s\<lparr>gameeNative := gameeNative s @ [Primary ''OneButton''],
          mainController := Some (ControllerInst
            (OneButtonController\<lparr>buttons :=
               [(''button'',
                 Btn (Button_trigger ''keydown'' (new_Button ''button'' (Some 32))))]\<rparr>))\<rparr>)
   \<and> isDown (Button_trigger ''keydown'' (new_Button ''button'' (Some 32)))"
  by (simp add: gamee_trigger_def requestController_def js_defs cat_defs ctl_defs isDown_def)

text \<open>What each call does to \<^verbatim>\<open>mainController\<close>.\<close>

lemma additionalController_main:
  "mainController (snd (additionalController type opts s)) = mainController s"
  by (simp add: additionalController_def split: sum.split)

lemma requestController_main:
  "mainController (snd (requestController type opts s)) =
     (case createController type opts of Inl e \<Rightarrow> mainController s | Inr m \<Rightarrow> Some m)"
  by (simp add: requestController_def split: sum.split)

lemma gamee_trigger_main:
  "mainController (snd (gamee_trigger ev data s)) =
     map_option (\<lambda>m. snd (instance_trigger ev data m)) (mainController s)"
  by (simp add: gamee_trigger_def split: option.split prod.split)

lemma step_same_main:
  "mainController s = mainController t \<Longrightarrow>
   mainController (step c s) = mainController (step c t)"
  by (cases c)
     (simp_all add: additionalController_main requestController_main gamee_trigger_main
        split: sum.split)

lemma step_additional:
  "is_additional c \<Longrightarrow> mainController (step c s) = mainController s"
  by (cases c) (simp_all add: additionalController_main)

lemma run_without_additional:
  "mainController s = mainController t \<Longrightarrow>
   mainController (fold step calls s)
     = mainController (fold step (filter (\<lambda>c. \<not> is_additional c) calls) t)"
proof (induction calls arbitrary: s t)
  case Nil
  then show ?case by simp
next
  case (Cons c calls)
  show ?case
  proof (cases "is_additional c")
    case True
    then have "mainController (step c s) = mainController t"
      using Cons.prems by (simp add: step_additional)
    from Cons.IH [OF this] True show ?thesis by simp
  next
    case False
    have "mainController (step c s) = mainController (step c t)"
      using Cons.prems by (rule step_same_main)
    from Cons.IH [OF this] False show ?thesis by simp
  qed
qed

text \<open>
  C6. \<^verbatim>\<open>additionalController\<close> returns what \<^verbatim>\<open>createController\<close> builds for it.
  Whether it returns a controller or raises, it leaves \<^verbatim>\<open>mainController\<close> as it was,
  so \<^verbatim>\<open>gamee.controller.trigger\<close> raises or returns after it as it would have before
  it. Over a whole sequence of calls of
  \<^verbatim>\<open>requestController\<close>, \<^verbatim>\<open>additionalController\<close> and \<^verbatim>\<open>trigger\<close>, the main
  controller at the end is the one the sequence reaches with every
  \<^verbatim>\<open>additionalController\<close> call taken out.
\<close>

theorem additionalController_keeps_main:
  "fst (additionalController type opts s) = createController type opts
   \<and> mainController (snd (additionalController type opts s)) = mainController s
   \<and> fst (gamee_trigger ev data (snd (additionalController type opts s)))
       = fst (gamee_trigger ev data s)
   \<and> mainController (run calls s)
       = mainController (run (filter (\<lambda>c. \<not> is_additional c) calls) s)"
proof -
  have a: "mainController (snd (additionalController type opts s)) = mainController s"
    by (rule additionalController_main)
  have b: "fst (gamee_trigger ev data (snd (additionalController type opts s)))
       = fst (gamee_trigger ev data s)"
    by (simp add: gamee_trigger_def a split: option.split prod.split)
  have c: "mainController (run calls s)
       = mainController (run (filter (\<lambda>c. \<not> is_additional c) calls) s)"
    unfolding run_def by (rule run_without_additional) simp
  have d: "fst (additionalController type opts s) = createController type opts"
    by (simp add: additionalController_def split: sum.split)
  from a b c d show ?thesis by blast
qed

text \<open>
  When \<^verbatim>\<open>createController\<close> raises, \<^verbatim>\<open>requestController\<close> raises the same error and
  the session is as it was: nothing announced, the main controller untouched.
\<close>

lemma requestController_failure:
  assumes "createController type opts = Inl e"
  shows "requestController type opts s = (Inl e, s)"
  using assms by (simp add: requestController_def)

text \<open>
  C10. The identifier \<^verbatim>\<open>constructor\<close> is not in the catalog, yet
  \<^verbatim>\<open>requestController("constructor")\<close> on the fresh session raises nothing: it announces
  the type to the host and makes an empty object the main controller. A
  \<^verbatim>\<open>trigger\<close> that raised "No controller present" before the call raises a TypeError
  after it.
\<close>

theorem requestController_constructor_changes_session:
  "map_of controllerTypes ''constructor'' = None
   \<and> requestController ''constructor'' None Session_new
       = (Inr PlainObject,
          \<lparr>mainController = Some PlainObject, gameeNative = [Primary ''constructor'']\<rparr>)
   \<and> fst (gamee_trigger ev data Session_new) = Some NoControllerPresent
   \<and> fst (gamee_trigger ev data (snd (requestController ''constructor'' None Session_new)))
       = Some TypeError"
  by (simp add: js_defs cat_defs requestController_def gamee_trigger_def Session_new_def)

end
